theory Spec2Isabelle
  imports Main "HOL-Library.Sublist"
begin

section \<open>Python values and strings\<close>

text \<open>
  The plugins are Python. A value that comes out of \<^verbatim>\<open>json.loads\<close>, out of a report
  dictionary or out of a data-frame cell is a \<open>json\<close> value; a Python \<^verbatim>\<open>dict\<close> is an
  association list in insertion order, read with \<open>map_of\<close> (keys of a parsed document are
  distinct). Strings are character lists; the model follows Python and Polars on ASCII
  text, and JSON numbers are integers (floating point values are outside the model).
\<close>

datatype json =
    JNull
  | JBool bool
  | JInt int
  | JStr string
  | JArr "json list"
  | JObj "(string \<times> json) list"

type_synonym pydict = "(string \<times> json) list"

text \<open>Python truthiness, as used by \<^verbatim>\<open>if not x\<close> and \<^verbatim>\<open>x or y\<close>.\<close>

fun truthy :: "json \<Rightarrow> bool" where
  "truthy JNull = False"
| "truthy (JBool b) = b"
| "truthy (JInt n) = (n \<noteq> 0)"
| "truthy (JStr s) = (s \<noteq> [])"
| "truthy (JArr xs) = (xs \<noteq> [])"
| "truthy (JObj kvs) = (kvs \<noteq> [])"

definition py_or :: "json \<Rightarrow> json \<Rightarrow> json" where
  "py_or a b = (if truthy a then a else b)"

text \<open>\<^verbatim>\<open>d.get(k, default)\<close> and \<^verbatim>\<open>d.get(k)\<close> (whose default is \<^verbatim>\<open>None\<close>).\<close>

definition dict_get :: "pydict \<Rightarrow> string \<Rightarrow> json \<Rightarrow> json" where
  "dict_get d k dflt = (case map_of d k of None \<Rightarrow> dflt | Some v \<Rightarrow> v)"

definition dict_get0 :: "pydict \<Rightarrow> string \<Rightarrow> json" where
  "dict_get0 d k = dict_get d k JNull"

definition nl :: char where
  "nl = CHR 0x0A"

text \<open>
  \<^verbatim>\<open>s.replace(old, new)\<close> for a non-empty \<open>old\<close>: occurrences are replaced from the left and
  do not overlap. (Python inserts \<open>new\<close> between all characters for an empty \<open>old\<close>; no
  call of the plugins passes one, and the model leaves the string unchanged there.)
\<close>

function replace_str :: "string \<Rightarrow> string \<Rightarrow> string \<Rightarrow> string" where
  "replace_str old new [] = []"
| "replace_str old new (c # cs) =
     (if old \<noteq> [] \<and> prefix old (c # cs)
      then new @ replace_str old new (drop (length old) (c # cs))
      else c # replace_str old new cs)"
  by pat_completeness auto
termination
  by (relation "measure (\<lambda>(old, new, s). length s)") (auto simp: neq_Nil_conv)

definition nl2br :: "string \<Rightarrow> string" where
  "nl2br s = replace_str [nl] ''<br/>'' s"

text \<open>
  ASCII whitespace as \<^verbatim>\<open>str.strip()\<close> and \<^verbatim>\<open>str.isspace()\<close> see it: tab, newline, vertical tab,
  form feed, carriage return, the four separators \<open>0x1C\<close> to \<open>0x1F\<close>, and space.
\<close>

definition py_isspace :: "char \<Rightarrow> bool" where
  "py_isspace c = (let n = (of_char c :: nat) in (9 \<le> n \<and> n \<le> 13) \<or> (28 \<le> n \<and> n \<le> 32))"

definition py_strip :: "string \<Rightarrow> string" where
  "py_strip s = rev (dropWhile py_isspace (rev (dropWhile py_isspace s)))"

definition is_upper :: "char \<Rightarrow> bool" where
  "is_upper c = (let n = (of_char c :: nat) in 65 \<le> n \<and> n \<le> 90)"

definition is_lower :: "char \<Rightarrow> bool" where
  "is_lower c = (let n = (of_char c :: nat) in 97 \<le> n \<and> n \<le> 122)"

definition is_digit :: "char \<Rightarrow> bool" where
  "is_digit c = (let n = (of_char c :: nat) in 48 \<le> n \<and> n \<le> 57)"

definition lower_char :: "char \<Rightarrow> char" where
  "lower_char c = (if is_upper c then char_of (of_char c + (32 :: nat)) else c)"

definition upper_char :: "char \<Rightarrow> char" where
  "upper_char c = (if is_lower c then char_of (of_char c - (32 :: nat)) else c)"

definition py_lower :: "string \<Rightarrow> string" where
  "py_lower s = map lower_char s"

definition py_upper :: "string \<Rightarrow> string" where
  "py_upper s = map upper_char s"

text \<open>\<^verbatim>\<open>sub in s\<close> on strings.\<close>

definition contains_str :: "string \<Rightarrow> string \<Rightarrow> bool" where
  "contains_str sub s = list_ex (prefix sub) (suffixes s)"

subsection \<open>\<^verbatim>\<open>str(x)\<close> and \<^verbatim>\<open>repr(x)\<close>\<close>

definition digit_char :: "nat \<Rightarrow> char" where
  "digit_char d = ''0123456789abcdef'' ! d"

fun nat_str :: "nat \<Rightarrow> string" where
  "nat_str n = (if n < 10 then [digit_char n] else nat_str (n div 10) @ [digit_char (n mod 10)])"

definition int_str :: "int \<Rightarrow> string" where
  "int_str i = (if i < 0 then CHR ''-'' # nat_str (nat (- i)) else nat_str (nat i))"

definition squote :: char where
  "squote = CHR 0x27"

definition dquote :: char where
  "dquote = CHR 0x22"

definition bslash :: char where
  "bslash = CHR 0x5C"

definition repr_char :: "char \<Rightarrow> char \<Rightarrow> string" where
  "repr_char q c =
     (let n = (of_char c :: nat) in
      if c = bslash then [bslash, bslash]
      else if c = q then [bslash, q]
      else if n = 10 then [bslash, CHR ''n'']
      else if n = 13 then [bslash, CHR ''r'']
      else if n = 9 then [bslash, CHR ''t'']
      else if n < 32 \<or> n = 127 then [bslash, CHR ''x'', digit_char (n div 16), digit_char (n mod 16)]
      else [c])"

definition repr_str :: "string \<Rightarrow> string" where
  "repr_str s =
     (let q = (if squote \<in> set s \<and> dquote \<notin> set s then dquote else squote)
      in q # concat (map (repr_char q) s) @ [q])"

fun join_str :: "string \<Rightarrow> string list \<Rightarrow> string" where
  "join_str sep [] = []"
| "join_str sep [x] = x"
| "join_str sep (x # y # ys) = x @ sep @ join_str sep (y # ys)"

fun py_repr :: "json \<Rightarrow> string" where
  "py_repr JNull = ''None''"
| "py_repr (JBool b) = (if b then ''True'' else ''False'')"
| "py_repr (JInt n) = int_str n"
| "py_repr (JStr s) = repr_str s"
| "py_repr (JArr xs) = ''['' @ join_str '', '' (map py_repr xs) @ '']''"
| "py_repr (JObj kvs) =
     ''{'' @ join_str '', '' (map (\<lambda>kv. repr_str (fst kv) @ '': '' @ py_repr (snd kv)) kvs) @ ''}''"

fun py_str :: "json \<Rightarrow> string" where
  "py_str (JStr s) = s"
| "py_str v = py_repr v"


section \<open>The bug-bounty exporter (\<^verbatim>\<open>ywh2csv.py\<close>)\<close>

text \<open>\<^verbatim>\<open>CRITICALITY_MAP\<close>, the module's lookup table.\<close>

definition CRITICALITY_MAP :: "(string \<times> string) list" where
  "CRITICALITY_MAP =
     [(''critical'', ''CRITICAL''), (''c'', ''CRITICAL''),
      (''high'', ''HIGH''), (''h'', ''HIGH''),
      (''medium'', ''MEDIUM''), (''m'', ''MEDIUM''),
      (''low'', ''LOW''), (''l'', ''LOW'')]"

text \<open>
  \<^verbatim>\<open>convert_criticality\<close>: \<open>None\<close> for a falsy or unknown criticality (the warning it logs
  is not part of the result).
\<close>

definition convert_criticality :: "json \<Rightarrow> string option" where
  "convert_criticality ywh_criticality =
     (if \<not> truthy ywh_criticality then None
      else map_of CRITICALITY_MAP (py_strip (py_lower (py_str ywh_criticality))))"

text \<open>
  \<^verbatim>\<open>clean_scope\<close>. \<^verbatim>\<open>cleaned.split('/')[0]\<close> is the text before the first slash, and the final
  \<^verbatim>\<open>re.sub(r'[^a-zA-Z0-9.\-]', '', cleaned)\<close> keeps letters, digits, dots and hyphens.
\<close>

definition host_char :: "char \<Rightarrow> bool" where
  "host_char c = (is_lower c \<or> is_upper c \<or> is_digit c \<or> c = CHR ''.'' \<or> c = CHR ''-'')"

definition clean_scope :: "json \<Rightarrow> string" where
  "clean_scope scope =
     (if \<not> truthy scope then []
      else
        let cleaned = py_strip (py_str scope);
            cleaned = replace_str [bslash, CHR ''/''] ''/'' cleaned;
            cleaned = replace_str ''http://'' [] (replace_str ''https://'' [] cleaned);
            cleaned = (if CHR ''/'' \<in> set cleaned
                       then takeWhile (\<lambda>c. c \<noteq> CHR ''/'') cleaned else cleaned);
            cleaned = (if CHR '':'' \<in> set cleaned
                       then takeWhile (\<lambda>c. c \<noteq> CHR '':'') cleaned else cleaned)
        in filter host_char cleaned)"

text \<open>
  \<^verbatim>\<open>format_description\<close>. \<^verbatim>\<open>formatted[:max_length]\<close> is Python slicing: a negative bound
  counts from the end.
\<close>

definition py_slice_to :: "int \<Rightarrow> string \<Rightarrow> string" where
  "py_slice_to n s = (if 0 \<le> n then take (nat n) s else take (length s - nat (- n)) s)"

definition format_description :: "json \<Rightarrow> int \<Rightarrow> string" where
  "format_description description max_length =
     (if \<not> truthy description then []
      else
        let formatted = replace_str [nl] ''<br/>'' (py_str description)
        in if int (length formatted) > max_length
           then py_slice_to max_length formatted @ ''...''
           else formatted)"

text \<open>The row \<^verbatim>\<open>map_report_to_csv_row\<close> builds, one field per CSV header.\<close>

record csv_row =
  CVE :: json
  Risk :: string
  Host :: string
  Port :: string
  Name :: json
  Description :: string
  Solution :: string
  Plugin_Output :: string
  VPR_Score :: string

text \<open>
  The source of the fields: the detailed report when one was fetched (and is not empty),
  the summary otherwise.
\<close>

definition report_source :: "pydict \<Rightarrow> pydict option \<Rightarrow> pydict" where
  "report_source report detailed_report =
     (case detailed_report of
        None \<Rightarrow> report
      | Some d \<Rightarrow> if d \<noteq> [] then d else report)"

definition report_criticity :: "pydict \<Rightarrow> json" where
  "report_criticity source =
     (let criticity = dict_get source ''criticity'' (JStr [])
      in if \<not> truthy criticity
         then (case dict_get source ''cvss'' (JObj []) of
                 JObj cvss \<Rightarrow> dict_get cvss ''criticity'' (JStr [])
               | _ \<Rightarrow> criticity)
         else criticity)"

definition report_description :: "pydict \<Rightarrow> json" where
  "report_description source =
     (let description = dict_get source ''description_html'' (JStr [])
      in if \<not> truthy description then dict_get source ''description'' (JStr []) else description)"

definition report_remediation_link :: "pydict \<Rightarrow> json" where
  "report_remediation_link source =
     (let remediation_link = dict_get source ''remediation_link'' (JStr [])
      in if \<not> truthy remediation_link
         then (case dict_get source ''bug_type'' (JObj []) of
                 JObj bug_type \<Rightarrow> dict_get bug_type ''remediation_link'' (JStr [])
               | _ \<Rightarrow> remediation_link)
         else remediation_link)"

definition map_report_to_csv_row :: "pydict \<Rightarrow> pydict option \<Rightarrow> csv_row option" where
  "map_report_to_csv_row report detailed_report =
     (let source = report_source report detailed_report;
          local_id = dict_get source ''local_id'' (JStr []);
          criticity = report_criticity source;
          title = dict_get source ''title'' (JStr []);
          description = report_description source;
          remediation_link = report_remediation_link source;
          scope = dict_get source ''scope'' (JStr []);
          host = (if truthy scope then clean_scope scope else [])
      in case convert_criticality criticity of
           None \<Rightarrow> None
         | Some risk \<Rightarrow>
             Some \<lparr> CVE = local_id,
                    Risk = risk,
                    Host = host,
                    Port = ''0'',
                    Name = title,
                    Description = format_description description 5000,
                    Solution = (if truthy remediation_link
                                then format_description remediation_link 5000
                                else format_description description 5000),
                    Plugin_Output = [],
                    VPR_Score = [] \<rparr>)"


section \<open>Uploads, errors and data frames\<close>

text \<open>
  Every adapter is \<^verbatim>\<open>process(file, file_type)\<close>. The bytes of \<open>file\<close> reach the adapter's
  code only through a library parser (\<^verbatim>\<open>json.loads\<close>, \<^verbatim>\<open>ElementTree.parse\<close>, Polars' CSV and
  JSON readers), so an upload is modelled by what that parser makes of it: \<open>Malformed\<close>
  when the parser raises, \<open>Wellformed d\<close> with the parsed document otherwise.

  Exceptions are values. \<open>UnsupportedFormat\<close> is the \<^verbatim>\<open>ValueError\<close> of the file-type guard,
  \<open>ParseError\<close> what the parser raises, \<open>UnsupportedShape\<close> the \<^verbatim>\<open>ValueError\<close> of the Trivy
  adapter for a document with neither top-level key, \<open>PyError\<close> any \<^verbatim>\<open>AttributeError\<close>,
  \<^verbatim>\<open>TypeError\<close> or \<^verbatim>\<open>KeyError\<close> Python raises on a value of the wrong kind, and
  \<open>PolarsError\<close> any exception of the data-frame library.
\<close>

datatype error = UnsupportedFormat | ParseError | UnsupportedShape | PyError | PolarsError

datatype 'd upload = Malformed | Wellformed 'd

text \<open>
  A data frame: the column names in order, and the rows, each a list of cells in column
  order. A string expression of Polars (\<^verbatim>\<open>str.replace_all\<close>, \<^verbatim>\<open>str.to_uppercase\<close>) keeps a
  null cell null and needs a string column: the model reports a cell of another kind as
  \<open>PolarsError\<close> and does not follow the type coercions of Polars.
\<close>

record frame =
  columns :: "string list"
  rows :: "json list list"

definition canonical_columns :: "string list" where
  "canonical_columns =
     [''cve'', ''risk'', ''host'', ''port'', ''name'', ''description'', ''remediation'',
      ''evidence'', ''vpr_score'']"

definition valid_risks :: "string list" where
  "valid_risks = [''CRITICAL'', ''HIGH'', ''MEDIUM'', ''LOW'']"

text \<open>\<^verbatim>\<open>pl.DataFrame(schema={...})\<close> with the nine columns: the empty result.\<close>

definition empty_frame :: frame where
  "empty_frame = \<lparr> columns = canonical_columns, rows = [] \<rparr>"

fun index_of :: "string list \<Rightarrow> string \<Rightarrow> nat option" where
  "index_of [] x = None"
| "index_of (y # ys) x = (if x = y then Some 0 else map_option Suc (index_of ys x))"

text \<open>The cell of a row at a column index; a frame is rectangular, so the index is in range.\<close>

definition cell :: "json list \<Rightarrow> nat \<Rightarrow> json" where
  "cell r i = (if i < length r then r ! i else JNull)"

fun mapM_err :: "('a \<Rightarrow> error + 'b) \<Rightarrow> 'a list \<Rightarrow> error + 'b list" where
  "mapM_err f [] = Inr []"
| "mapM_err f (x # xs) =
     (case f x of
        Inl e \<Rightarrow> Inl e
      | Inr y \<Rightarrow> (case mapM_err f xs of Inl e \<Rightarrow> Inl e | Inr ys \<Rightarrow> Inr (y # ys)))"

definition bind_err :: "error + 'a \<Rightarrow> ('a \<Rightarrow> error + 'b) \<Rightarrow> error + 'b" where
  "bind_err m f = (case m of Inl e \<Rightarrow> Inl e | Inr x \<Rightarrow> f x)"

text \<open>\<^verbatim>\<open>pl.DataFrame(records)\<close> for a non-empty list of dictionaries that share their keys.\<close>

definition frame_of_records :: "pydict list \<Rightarrow> frame" where
  "frame_of_records records =
     (case records of
        [] \<Rightarrow> \<lparr> columns = [], rows = [] \<rparr>
      | r # _ \<Rightarrow> \<lparr> columns = map fst r, rows = map (map snd) records \<rparr>)"

definition str_cell :: "(string \<Rightarrow> string) \<Rightarrow> json \<Rightarrow> error + json" where
  "str_cell g c =
     (case c of JStr s \<Rightarrow> Inr (JStr (g s)) | JNull \<Rightarrow> Inr JNull | _ \<Rightarrow> Inl PolarsError)"

text \<open>
  \<^verbatim>\<open>df.with_columns(pl.col(c).str.\<dots>)\<close>: a string function over the cells of column \<open>c\<close>,
  in place.
\<close>

definition with_str_col :: "string \<Rightarrow> (string \<Rightarrow> string) \<Rightarrow> frame \<Rightarrow> error + frame" where
  "with_str_col c g df =
     (case index_of (columns df) c of
        None \<Rightarrow> Inl PolarsError
      | Some i \<Rightarrow>
          bind_err
            (mapM_err (\<lambda>r. bind_err (str_cell g (cell r i)) (\<lambda>v. Inr (r[i := v]))) (rows df))
            (\<lambda>rs. Inr (df\<lparr> rows := rs \<rparr>)))"

text \<open>\<^verbatim>\<open>pl.col("risk").is_in(valid_risks)\<close> on a cell.\<close>

definition risk_is_valid :: "json \<Rightarrow> bool" where
  "risk_is_valid c = (case c of JStr s \<Rightarrow> s \<in> set valid_risks | _ \<Rightarrow> False)"

definition filter_valid_risk :: "frame \<Rightarrow> error + frame" where
  "filter_valid_risk df =
     (case index_of (columns df) ''risk'' of
        None \<Rightarrow> Inl PolarsError
      | Some i \<Rightarrow> Inr (df\<lparr> rows := filter (\<lambda>r. risk_is_valid (cell r i)) (rows df) \<rparr>))"

text \<open>Iterating a Python value with \<^verbatim>\<open>for\<close>: a list, the keys of a dict, the characters of a string.\<close>

definition py_iter :: "json \<Rightarrow> error + json list" where
  "py_iter v =
     (case v of
        JArr xs \<Rightarrow> Inr xs
      | JObj kvs \<Rightarrow> Inr (map (\<lambda>kv. JStr (fst kv)) kvs)
      | JStr s \<Rightarrow> Inr (map (\<lambda>c. JStr [c]) s)
      | _ \<Rightarrow> Inl PyError)"


section \<open>The Trivy JSON adapter (\<^verbatim>\<open>VA/Trivy/trivy.py\<close>)\<close>

text \<open>
  \<^verbatim>\<open>_parse_legacy_vulnerability(vuln, data)\<close>. \<^verbatim>\<open>.get\<close> on a value that is not a dict raises,
  so \<open>vuln\<close>, its \<open>location\<close>, the location's \<open>dependency\<close> and the dependency's \<open>package\<close>
  must be objects where they are read.
\<close>

definition legacy_package_name :: "pydict \<Rightarrow> error + json" where
  "legacy_package_name location =
     (case map_of location ''dependency'' of
        None \<Rightarrow> Inr (JStr [])
      | Some (JObj dependency) \<Rightarrow>
          (case dict_get dependency ''package'' (JObj []) of
             JObj package \<Rightarrow> Inr (dict_get package ''name'' (JStr []))
           | _ \<Rightarrow> Inl PyError)
      | Some _ \<Rightarrow> Inl PyError)"

definition legacy_solution :: "pydict \<Rightarrow> json" where
  "legacy_solution vuln =
     (let solution = py_or (dict_get0 vuln ''FixedVersion'') (dict_get vuln ''solution'' (JStr []))
      in if \<not> truthy solution \<or> solution = JStr ''No solution provided''
         then JStr ''No fix available'' else solution)"

definition parse_legacy_vulnerability :: "json \<Rightarrow> json \<Rightarrow> error + pydict" where
  "parse_legacy_vulnerability vuln data =
     (case vuln of
        JObj v \<Rightarrow>
          (let cve_id = py_or (py_or (dict_get0 v ''VulnerabilityID'') (dict_get0 v ''id''))
                              (dict_get v ''cve'' (JStr []));
               severity = py_or (dict_get0 v ''Severity'') (dict_get v ''severity'' (JStr []))
           in case dict_get v ''location'' (JObj []) of
                JObj location \<Rightarrow>
                  (let image = dict_get location ''image'' (JStr [])
                   in bind_err (legacy_package_name location) (\<lambda>package_name.
                        let name = py_or (py_or (py_or (py_or package_name (dict_get0 v ''PkgName''))
                                                       (dict_get0 v ''name''))
                                                (dict_get v ''message'' (JStr [])))
                                         cve_id;
                            description = py_or (dict_get0 v ''Description'')
                                                (dict_get v ''description'' (JStr []));
                            solution = legacy_solution v
                        in Inr [(''cve'', cve_id), (''risk'', severity), (''host'', image),
                                (''port'', JInt 0), (''name'', name),
                                (''description'', description), (''remediation'', solution),
                                (''evidence'', JStr []), (''vpr_score'', JStr [])]))
              | _ \<Rightarrow> Inl PyError)
      | _ \<Rightarrow> Inl PyError)"

text \<open>\<^verbatim>\<open>_parse_modern_vulnerability(vuln, target)\<close>; the f-string formats with \<^verbatim>\<open>str\<close>.\<close>

definition modern_description :: "pydict \<Rightarrow> json" where
  "modern_description vuln =
     (let description = dict_get vuln ''Description'' (JStr [])
      in if \<not> truthy description then dict_get vuln ''Title'' (JStr []) else description)"

definition modern_solution :: "pydict \<Rightarrow> json" where
  "modern_solution vuln =
     (let fixed_version = dict_get vuln ''FixedVersion'' (JStr [])
      in if truthy fixed_version
         then JStr (''Upgrade to version '' @ py_str fixed_version)
         else JStr ''No fix available'')"

definition parse_modern_vulnerability :: "json \<Rightarrow> json \<Rightarrow> error + pydict" where
  "parse_modern_vulnerability vuln target =
     (case vuln of
        JObj v \<Rightarrow>
          Inr [(''cve'', dict_get v ''VulnerabilityID'' (JStr [])),
               (''risk'', dict_get v ''Severity'' (JStr [])),
               (''host'', target),
               (''port'', JInt 0),
               (''name'', dict_get v ''PkgName'' (JStr [])),
               (''description'', modern_description v),
               (''remediation'', modern_solution v),
               (''evidence'', JStr []),
               (''vpr_score'', JStr [])]
      | _ \<Rightarrow> Inl PyError)"

text \<open>The records of one element of \<^verbatim>\<open>data["Results"]\<close>; a null vulnerability list is skipped.\<close>

definition modern_result_records :: "json \<Rightarrow> error + pydict list" where
  "modern_result_records result =
     (case result of
        JObj r \<Rightarrow>
          (let target = dict_get r ''Target'' (JStr []);
               vulnerabilities = dict_get r ''Vulnerabilities'' (JArr [])
           in if vulnerabilities = JNull then Inr []
              else bind_err (py_iter vulnerabilities)
                     (mapM_err (\<lambda>vuln. parse_modern_vulnerability vuln target)))
      | _ \<Rightarrow> Inl PyError)"

text \<open>
  The record loop of \<^verbatim>\<open>process\<close>, with the shape test. \<^verbatim>\<open>"vulnerabilities" in data\<close> is a key
  test on a dict, a membership test on a list and a substring test on a string; on a list
  or string that passes it, \<^verbatim>\<open>data["vulnerabilities"]\<close> raises.
\<close>

definition trivy_records :: "json \<Rightarrow> error + pydict list" where
  "trivy_records data =
     (case data of
        JObj d \<Rightarrow>
          (case map_of d ''vulnerabilities'' of
             Some vulns \<Rightarrow>
               bind_err (py_iter vulns) (mapM_err (\<lambda>vuln. parse_legacy_vulnerability vuln data))
           | None \<Rightarrow>
               (case map_of d ''Results'' of
                  Some results \<Rightarrow>
                    bind_err (py_iter results) (\<lambda>rs.
                      bind_err (mapM_err modern_result_records rs) (\<lambda>recs. Inr (concat recs)))
                | None \<Rightarrow> Inl UnsupportedShape))
      | JArr xs \<Rightarrow>
          if JStr ''vulnerabilities'' \<in> set xs \<or> JStr ''Results'' \<in> set xs
          then Inl PyError else Inl UnsupportedShape
      | JStr s \<Rightarrow>
          if contains_str ''vulnerabilities'' s \<or> contains_str ''Results'' s
          then Inl PyError else Inl UnsupportedShape
      | _ \<Rightarrow> Inl PyError)"

definition trivy_process :: "json upload \<Rightarrow> string \<Rightarrow> error + frame" where
  "trivy_process file file_type =
     (if file_type \<notin> set [''application/json'', ''json''] then Inl UnsupportedFormat
      else case file of
        Malformed \<Rightarrow> Inl ParseError
      | Wellformed data \<Rightarrow>
          bind_err (trivy_records data) (\<lambda>records.
            if records = [] then Inr empty_frame
            else
              bind_err (with_str_col ''description'' (replace_str [nl] ''<br/>'')
                          (frame_of_records records)) (\<lambda>df.
              bind_err (with_str_col ''remediation'' (replace_str [nl] ''<br/>'') df) (\<lambda>df.
              bind_err (with_str_col ''risk'' py_upper df) (\<lambda>df.
              filter_valid_risk df)))))"


section \<open>The Burp Suite XML adapter (\<^verbatim>\<open>DAST/BurpSuite/burpsuite.py\<close>)\<close>

text \<open>
  An element of \<^verbatim>\<open>xml.etree.ElementTree\<close>: tag, attributes, the text before the first child
  (\<^verbatim>\<open>None\<close> when there is none) and the children.
\<close>

datatype xml = Element (tag: string) (attrib: "(string \<times> string) list")
  (elem_text: "string option") (children: "xml list")

definition xml_find :: "xml \<Rightarrow> string \<Rightarrow> xml option" where
  "xml_find e t = find (\<lambda>c. tag c = t) (children e)"

definition xml_findall :: "xml \<Rightarrow> string \<Rightarrow> xml list" where
  "xml_findall e t = filter (\<lambda>c. tag c = t) (children e)"

text \<open>\<^verbatim>\<open>e.findtext(t, default)\<close>: the default when no child matches, \<open>''\<close> for a child without text.\<close>

definition xml_findtext :: "xml \<Rightarrow> string \<Rightarrow> string \<Rightarrow> string" where
  "xml_findtext e t dflt =
     (case xml_find e t of
        None \<Rightarrow> dflt
      | Some c \<Rightarrow> (case elem_text c of None \<Rightarrow> [] | Some s \<Rightarrow> s))"

definition text_or_empty :: "xml \<Rightarrow> string" where
  "text_or_empty e = (case elem_text e of None \<Rightarrow> [] | Some s \<Rightarrow> s)"

definition issue_host :: "xml \<Rightarrow> string" where
  "issue_host issue =
     (case xml_find issue ''host'' of
        Some host_elem \<Rightarrow>
          (if text_or_empty host_elem \<noteq> [] then text_or_empty host_elem
           else (case map_of (attrib host_elem) ''ip'' of None \<Rightarrow> [] | Some ip \<Rightarrow> ip))
      | None \<Rightarrow> [])"

definition issue_evidence :: "xml \<Rightarrow> string" where
  "issue_evidence issue =
     (case xml_find issue ''requestresponse'' of
        Some requestresponse_elem \<Rightarrow>
          (case xml_find requestresponse_elem ''request'' of
             Some request_elem \<Rightarrow> text_or_empty request_elem
           | None \<Rightarrow> [])
      | None \<Rightarrow> [])"

definition issue_record :: "xml \<Rightarrow> pydict" where
  "issue_record issue =
     (let severity = xml_findtext issue ''severity'' [];
          host = issue_host issue;
          name = xml_findtext issue ''name'' [];
          issue_background = xml_findtext issue ''issueBackground'' [];
          issue_detail = xml_findtext issue ''issueDetail'' [];
          description = (if issue_background \<noteq> [] then issue_background else issue_detail);
          remediation_background = xml_findtext issue ''remediationBackground'' [];
          remediation_detail = xml_findtext issue ''remediationDetail'' [];
          remediation = (if remediation_background \<noteq> [] then remediation_background
                         else remediation_detail);
          evidence = issue_evidence issue
      in [(''cve'', JStr []), (''risk'', JStr severity), (''host'', JStr host),
          (''port'', JInt 0), (''name'', JStr name), (''description'', JStr description),
          (''remediation'', JStr remediation), (''evidence'', JStr evidence),
          (''vpr_score'', JStr [])])"

definition burp_supported_types :: "string list" where
  "burp_supported_types = [''xml'', ''application/xml'', ''text/xml'', ''application/x-xml'']"

definition burpsuite_process :: "xml upload \<Rightarrow> string \<Rightarrow> error + frame" where
  "burpsuite_process file file_type =
     (if py_lower file_type \<notin> set (map py_lower burp_supported_types) then Inl UnsupportedFormat
      else case file of
        Malformed \<Rightarrow> Inl ParseError
      | Wellformed root \<Rightarrow>
          (let records = map issue_record (xml_findall root ''issue'')
           in if records = [] then Inr empty_frame
              else
                bind_err (with_str_col ''description'' (replace_str [nl] ''<br/>'')
                            (frame_of_records records)) (\<lambda>df.
                bind_err (with_str_col ''remediation'' (replace_str [nl] ''<br/>'') df) (\<lambda>df.
                bind_err (with_str_col ''evidence'' (replace_str [nl] ''<br/>'') df) (\<lambda>df.
                bind_err (with_str_col ''risk'' py_upper df) (\<lambda>df.
                filter_valid_risk df))))))"


section \<open>The Semgrep JSON adapter (\<^verbatim>\<open>SAST/Semgrep/semgrep.py\<close>)\<close>

text \<open>
  One record per entry of \<^verbatim>\<open>results\<close>. \<^verbatim>\<open>start\<close>, \<^verbatim>\<open>end\<close> and \<^verbatim>\<open>extra\<close> are read with
  \<^verbatim>\<open>.get\<close>, so they must be objects; the evidence is an f-string over the two line values
  and the path.
\<close>

definition semgrep_record :: "json \<Rightarrow> error + pydict" where
  "semgrep_record result =
     (case result of
        JObj r \<Rightarrow>
          (let check_id = dict_get r ''check_id'' (JStr []);
               path = dict_get r ''path'' (JStr [])
           in case (dict_get r ''start'' (JObj []), dict_get r ''end'' (JObj []),
                    dict_get r ''extra'' (JObj [])) of
                (JObj start, JObj end', JObj extra) \<Rightarrow>
                  (let start_line = dict_get start ''line'' (JInt 0);
                       end_line = dict_get end' ''line'' (JInt 0);
                       message = dict_get extra ''message'' (JStr []);
                       fix = dict_get extra ''fix'' (JStr []);
                       evidence = ''Line '' @ py_str start_line @ '' - '' @ py_str end_line
                                  @ '' in file : '' @ py_str path
                   in Inr [(''cve'', JStr []), (''risk'', JStr ''Medium''),
                           (''host'', JStr ''semgrep''), (''port'', start_line),
                           (''name'', check_id), (''description'', message),
                           (''remediation'', fix), (''evidence'', JStr evidence),
                           (''vpr_score'', JStr [])])
              | _ \<Rightarrow> Inl PyError)
      | _ \<Rightarrow> Inl PyError)"

definition semgrep_records :: "json \<Rightarrow> error + pydict list" where
  "semgrep_records data =
     (case data of
        JObj d \<Rightarrow> bind_err (py_iter (dict_get d ''results'' (JArr []))) (mapM_err semgrep_record)
      | _ \<Rightarrow> Inl PyError)"

definition semgrep_process :: "json upload \<Rightarrow> string \<Rightarrow> error + frame" where
  "semgrep_process file file_type =
     (if file_type \<notin> set [''application/json'', ''json''] then Inl UnsupportedFormat
      else case file of
        Malformed \<Rightarrow> Inl ParseError
      | Wellformed data \<Rightarrow>
          bind_err (semgrep_records data) (\<lambda>records.
            if records = [] then Inr empty_frame
            else
              bind_err (with_str_col ''description'' (replace_str [nl] ''<br/>'')
                          (frame_of_records records)) (\<lambda>df.
              bind_err (with_str_col ''remediation'' (replace_str [nl] ''<br/>'') df) (\<lambda>df.
              with_str_col ''evidence'' (replace_str [nl] ''<br/>'') df))))"


section \<open>Operations on parsed CSV frames\<close>

text \<open>
  The CSV adapters work on the frame Polars reads from the file: its header gives the
  columns, and a cell is a string, an integer or null.
\<close>

definition col_values :: "frame \<Rightarrow> string \<Rightarrow> error + json list" where
  "col_values df c =
     (case index_of (columns df) c of
        None \<Rightarrow> Inl PolarsError
      | Some i \<Rightarrow> Inr (map (\<lambda>r. cell r i) (rows df)))"

text \<open>
  \<^verbatim>\<open>with_columns(c = values)\<close>: an existing column is replaced in place, a new one is added
  at the end.
\<close>

definition set_col :: "string \<Rightarrow> json list \<Rightarrow> frame \<Rightarrow> frame" where
  "set_col c vs df =
     (case index_of (columns df) c of
        Some i \<Rightarrow> df\<lparr> rows := map (\<lambda>(r, v). r[i := v]) (zip (rows df) vs) \<rparr>
      | None \<Rightarrow> \<lparr> columns = columns df @ [c],
                  rows = map (\<lambda>(r, v). r @ [v]) (zip (rows df) vs) \<rparr>)"

text \<open>
  Renaming every column by a function (\<^verbatim>\<open>select(pl.all().name.map(f))\<close>) and renaming by a
  mapping (\<^verbatim>\<open>rename({...})\<close>): the new names must be distinct, and the mapping's old names
  must be columns.
\<close>

definition map_names :: "(string \<Rightarrow> string) \<Rightarrow> frame \<Rightarrow> error + frame" where
  "map_names f df =
     (if distinct (map f (columns df)) then Inr (df\<lparr> columns := map f (columns df) \<rparr>)
      else Inl PolarsError)"

definition rename_cols :: "(string \<times> string) list \<Rightarrow> frame \<Rightarrow> error + frame" where
  "rename_cols m df =
     (let new = map (\<lambda>c. case map_of m c of Some n \<Rightarrow> n | None \<Rightarrow> c) (columns df)
      in if list_all (\<lambda>kv. fst kv \<in> set (columns df)) m \<and> distinct new
         then Inr (df\<lparr> columns := new \<rparr>)
         else Inl PolarsError)"

text \<open>\<^verbatim>\<open>drop([...])\<close>: the named columns must exist.\<close>

definition drop_cols :: "string list \<Rightarrow> frame \<Rightarrow> error + frame" where
  "drop_cols cs df =
     (if list_all (\<lambda>c. c \<in> set (columns df)) cs
      then Inr \<lparr> columns = filter (\<lambda>c. c \<notin> set cs) (columns df),
                 rows = map (\<lambda>r. map snd (filter (\<lambda>cv. fst cv \<notin> set cs) (zip (columns df) r)))
                          (rows df) \<rparr>
      else Inl PolarsError)"

text \<open>
  \<^verbatim>\<open>filter(pl.col(c) != "None")\<close>: a row is kept when the comparison is true, so a null cell
  drops the row (the comparison is null), as the separate \<^verbatim>\<open>is_not_null()\<close> of the
  compliance adapter does; a column that is not a string column cannot be compared with
  a string.
\<close>

definition not_none_cell :: "json \<Rightarrow> error + bool" where
  "not_none_cell c =
     (case c of JStr s \<Rightarrow> Inr (s \<noteq> ''None'') | JNull \<Rightarrow> Inr False | _ \<Rightarrow> Inl PolarsError)"

definition filter_not_none :: "string \<Rightarrow> frame \<Rightarrow> error + frame" where
  "filter_not_none c df =
     bind_err (col_values df c) (\<lambda>vs.
     bind_err (mapM_err not_none_cell vs) (\<lambda>keep.
       Inr (df\<lparr> rows := map fst (filter snd (zip (rows df) keep)) \<rparr>)))"


section \<open>The Nessus CSV adapter (\<^verbatim>\<open>VA/Nessus/nessus.py\<close>)\<close>

text \<open>
  The header is lower-cased with its spaces replaced by underscores
  (\<^verbatim>\<open>"_".join(x.lower().split(" "))\<close>), rows whose risk is \<^verbatim>\<open>None\<close> are dropped, newlines
  become \<^verbatim>\<open> <br/> \<close> in three columns, and two columns are renamed. Every other column of
  the file stays.
\<close>

definition nessus_name :: "string \<Rightarrow> string" where
  "nessus_name x = replace_str '' '' ''_'' (py_lower x)"

definition nessus_process :: "frame upload \<Rightarrow> string \<Rightarrow> error + frame" where
  "nessus_process file file_type =
     (if file_type \<noteq> ''text/csv'' then Inl UnsupportedFormat
      else case file of
        Malformed \<Rightarrow> Inl ParseError
      | Wellformed lf \<Rightarrow>
          bind_err (map_names nessus_name lf) (\<lambda>lf.
          bind_err (filter_not_none ''risk'' lf) (\<lambda>lf.
          bind_err (with_str_col ''solution'' (replace_str [nl] '' <br/> '') lf) (\<lambda>lf.
          bind_err (with_str_col ''description'' (replace_str [nl] '' <br/> '') lf) (\<lambda>lf.
          bind_err (with_str_col ''plugin_output'' (replace_str [nl] '' <br/> '') lf) (\<lambda>lf.
          rename_cols [(''solution'', ''remediation''), (''plugin_output'', ''evidence'')] lf))))))"


section \<open>The compliance CSV adapter (\<^verbatim>\<open>Compliance/Nessus/nessus.py\<close>)\<close>

text \<open>
  Polars matches with the Rust \<^verbatim>\<open>regex\<close> crate: no multi-line mode unless asked for, so
  \<^verbatim>\<open>^\<close> and \<^verbatim>\<open>$\<close> match at the two ends of the text only and \<^verbatim>\<open>.\<close> stops at a newline
  unless \<^verbatim>\<open>(?s)\<close> is set; \<^verbatim>\<open>\s\<close> is tab to carriage return and space on ASCII.
\<close>

definition rx_isspace :: "char \<Rightarrow> bool" where
  "rx_isspace c = (let n = (of_char c :: nat) in (9 \<le> n \<and> n \<le> 13) \<or> n = 32)"

text \<open>
  \<^verbatim>\<open>str.extract(r"^(.*): \[.*\]", 1)\<close>. The match lies in the first line; the greedy group
  is the longest start of the line that is followed by \<^verbatim>\<open>: [\<close> and, later in the line, by
  a closing bracket.
\<close>

definition name_extract :: "string \<Rightarrow> string option" where
  "name_extract s =
     (let line = takeWhile (\<lambda>c. c \<noteq> nl) s
      in find (\<lambda>p. prefix '': ['' (drop (length p) line)
                    \<and> CHR '']'' \<in> set (drop (length p + 3) line))
              (rev (prefixes line)))"

text \<open>
  \<^verbatim>\<open>str.extract(r"^(?:.*\n){2}((?s).*?)(?:^Actual Value:|$)", 1)\<close>. After the first two
  lines, \<^verbatim>\<open>^Actual Value:\<close> cannot match (the position is not the start of the text), so
  the lazy group runs to the end of the text: the group is everything after the second
  newline.
\<close>

definition after_line :: "string \<Rightarrow> string option" where
  "after_line s = (if nl \<in> set s then Some (tl (dropWhile (\<lambda>c. c \<noteq> nl) s)) else None)"

definition description_extract :: "string \<Rightarrow> string option" where
  "description_extract s = (case after_line s of None \<Rightarrow> None | Some t \<Rightarrow> after_line t)"

text \<open>
  \<^verbatim>\<open>pattern2 = r"Actual Value:\s*\n(?s)(.*)"\<close>, searched from the left. A match starts at
  an \<^verbatim>\<open>Actual Value:\<close> whose following run of whitespace holds a newline; the greedy
  \<^verbatim>\<open>\s*\<close> gives back up to the last newline of that run, and the group is the rest of the
  text. \<open>pattern2_find\<close> returns the text before the match and the group.
\<close>

definition pattern2_group_at :: "string \<Rightarrow> string option" where
  "pattern2_group_at s =
     (let rest = drop 13 s;
          ws = takeWhile rx_isspace rest
      in if prefix ''Actual Value:'' s \<and> nl \<in> set ws
         then Some (rev (takeWhile (\<lambda>c. c \<noteq> nl) (rev ws)) @ dropWhile rx_isspace rest)
         else None)"

fun pattern2_find :: "string \<Rightarrow> (string \<times> string) option" where
  "pattern2_find [] = None"
| "pattern2_find (c # cs) =
     (case pattern2_group_at (c # cs) of
        Some g \<Rightarrow> Some ([], g)
      | None \<Rightarrow> map_option (\<lambda>pg. (c # fst pg, snd pg)) (pattern2_find cs))"

text \<open>\<^verbatim>\<open>.str.replace(pattern2, "")\<close>: the match reaches the end of the text.\<close>

definition pattern2_remove :: "string \<Rightarrow> string" where
  "pattern2_remove s = (case pattern2_find s of None \<Rightarrow> s | Some pg \<Rightarrow> fst pg)"

definition rx_strip :: "string \<Rightarrow> string" where
  "rx_strip s = rev (dropWhile rx_isspace (rev (dropWhile rx_isspace s)))"

definition compliance_description :: "string \<Rightarrow> string option" where
  "compliance_description s =
     map_option (\<lambda>d. replace_str [nl] ''<br/>'' (pattern2_remove d)) (description_extract s)"

definition compliance_evidence :: "string \<Rightarrow> string option" where
  "compliance_evidence s =
     map_option (\<lambda>e. rx_strip (replace_str [nl] ''<br/>'' (snd e))) (pattern2_find s)"

text \<open>A string expression that may find nothing: null for no match and for a null cell.\<close>

definition extract_cell :: "(string \<Rightarrow> string option) \<Rightarrow> json \<Rightarrow> error + json" where
  "extract_cell g c =
     (case c of
        JStr s \<Rightarrow> Inr (case g s of None \<Rightarrow> JNull | Some x \<Rightarrow> JStr x)
      | JNull \<Rightarrow> Inr JNull
      | _ \<Rightarrow> Inl PolarsError)"

definition compliance_process :: "frame upload \<Rightarrow> string \<Rightarrow> error + frame" where
  "compliance_process file file_type =
     (if file_type \<noteq> ''text/csv'' then Inl UnsupportedFormat
      else case file of
        Malformed \<Rightarrow> Inl ParseError
      | Wellformed lf \<Rightarrow>
          bind_err (col_values lf ''Description'') (\<lambda>ds.
          bind_err (mapM_err (extract_cell name_extract) ds) (\<lambda>names.
          bind_err (mapM_err (extract_cell compliance_description) ds) (\<lambda>descriptions.
          bind_err (mapM_err (extract_cell compliance_evidence) ds) (\<lambda>evidences.
          bind_err (filter_not_none ''Risk''
                      (set_col ''risk'' (map (\<lambda>d. JNull) ds)
                        (set_col ''evidence'' evidences
                          (set_col ''description'' descriptions
                            (set_col ''name'' names lf))))) (\<lambda>lf.
          bind_err (rename_cols [(''Solution'', ''remediation''), (''Risk'', ''status'')] lf) (\<lambda>lf.
          drop_cols [''VPR Score'', ''CVE'', ''Name'', ''Plugin Output'', ''Description''] lf)))))))"


section \<open>The ThreatCode CSV adapter (\<^verbatim>\<open>SAST/ThreatCode/threatcode.py\<close>)\<close>

definition threatcode_name :: "string \<Rightarrow> string" where
  "threatcode_name x = replace_str '' '' ''_'' (py_lower (py_strip x))"

text \<open>
  \<^verbatim>\<open>re.search(r'Line:\s*(\d+)', s)\<close>: the leftmost \<^verbatim>\<open>Line:\<close> that is followed, after any
  whitespace, by a digit; the group is the whole run of digits, read as a decimal number.
\<close>

definition digits_value :: "string \<Rightarrow> int" where
  "digits_value ds = foldl (\<lambda>a c. 10 * a + (int (of_char c) - 48)) 0 ds"

fun line_search :: "string \<Rightarrow> int option" where
  "line_search [] = None"
| "line_search (c # cs) =
     (let ds = takeWhile is_digit (dropWhile py_isspace (drop 5 (c # cs)))
      in if prefix ''Line:'' (c # cs) \<and> ds \<noteq> [] then Some (digits_value ds)
         else line_search cs)"

definition extract_first_line_number :: "string \<Rightarrow> int" where
  "extract_first_line_number plugin_output =
     (if plugin_output = [] \<or> py_strip plugin_output = [] then 0
      else case line_search plugin_output of Some n \<Rightarrow> n | None \<Rightarrow> 0)"

text \<open>
  \<^verbatim>\<open>map_elements\<close> leaves a null cell null and calls the function on the others; on a
  value that is not a string the function returns 0 when the value is falsy and fails on
  \<^verbatim>\<open>.strip()\<close> otherwise.
\<close>

definition line_number_cell :: "json \<Rightarrow> error + json" where
  "line_number_cell c =
     (case c of
        JNull \<Rightarrow> Inr JNull
      | JStr s \<Rightarrow> Inr (JInt (extract_first_line_number s))
      | _ \<Rightarrow> if truthy c then Inl PyError else Inr (JInt 0))"

definition fill_null :: "json \<Rightarrow> json \<Rightarrow> json" where
  "fill_null v c = (if c = JNull then v else c)"

definition cast_utf8 :: "json \<Rightarrow> error + json" where
  "cast_utf8 c =
     (case c of
        JNull \<Rightarrow> Inr JNull
      | JStr s \<Rightarrow> Inr (JStr s)
      | JInt n \<Rightarrow> Inr (JStr (int_str n))
      | JBool b \<Rightarrow> Inr (JStr (if b then ''true'' else ''false''))
      | _ \<Rightarrow> Inl PolarsError)"

text \<open>The \<^verbatim>\<open>select\<close> that maps the renamed columns to the schema, one row at a time.\<close>

definition threatcode_select :: "frame \<Rightarrow> error + frame" where
  "threatcode_select df =
     (case map (index_of (columns df))
             [''cve'', ''risk'', ''host'', ''line_number'', ''name'', ''description'',
              ''solution'', ''plugin_output'', ''vpr_score''] of
        [Some cve, Some risk, Some host, Some line_number, Some name, Some description,
         Some solution, Some plugin_output, Some vpr_score] \<Rightarrow>
          bind_err
            (mapM_err (\<lambda>r.
               bind_err (str_cell py_upper (cell r risk)) (\<lambda>risk'.
               bind_err (cast_utf8 (cell r vpr_score)) (\<lambda>vpr'.
                 Inr [fill_null (JStr []) (cell r cve), risk', cell r host, cell r line_number,
                      cell r name, cell r description, cell r solution, cell r plugin_output,
                      fill_null (JStr ''0'') vpr']))) (rows df))
            (\<lambda>rs. Inr \<lparr> columns = canonical_columns, rows = rs \<rparr>)
      | _ \<Rightarrow> Inl PolarsError)"

definition threatcode_process :: "frame upload \<Rightarrow> string \<Rightarrow> error + frame" where
  "threatcode_process file file_type =
     (if file_type \<notin> set [''text/csv'', ''csv''] then Inl UnsupportedFormat
      else case file of
        Malformed \<Rightarrow> Inl ParseError
      | Wellformed df \<Rightarrow>
          bind_err (map_names threatcode_name df) (\<lambda>df.
          bind_err (col_values df ''plugin_output'') (\<lambda>outputs.
          bind_err (mapM_err line_number_cell outputs) (\<lambda>line_numbers.
          bind_err (threatcode_select (set_col ''line_number'' line_numbers df)) (\<lambda>df.
          bind_err (with_str_col ''description'' (replace_str [nl] ''<br/>'') df) (\<lambda>df.
          bind_err (with_str_col ''remediation'' (replace_str [nl] ''<br/>'') df) (\<lambda>df.
          bind_err (with_str_col ''evidence'' (replace_str [nl] ''<br/>'') df) (\<lambda>df.
          bind_err (filter_valid_risk df) (\<lambda>df.
            if rows df = [] then Inr empty_frame else Inr df)))))))))"


section \<open>The nested-struct Trivy adapter (\<^verbatim>\<open>SCA/Trivy/trivy.py\<close>)\<close>

text \<open>
  \<^verbatim>\<open>pl.read_json\<close> reads the report, one object, as a frame of one row;
  \<^verbatim>\<open>explode("vulnerabilities")\<close> makes one row per element of that list and \<^verbatim>\<open>unnest\<close> turns
  the fields of the elements into columns. \<^verbatim>\<open>unnest\<close> needs a column of structs: the list
  must hold objects (or nulls beside them), so an empty list, or a list of other values,
  is an error; so is a field whose name is already a top-level column. A field some
  elements lack is null there; a column no element and no top-level key gives does not
  exist. Documents that are not one object are outside this model and are reported as
  \<open>PolarsError\<close>.
\<close>

definition is_struct_cell :: "json \<Rightarrow> bool" where
  "is_struct_cell c = (case c of JObj kvs \<Rightarrow> True | JNull \<Rightarrow> True | _ \<Rightarrow> False)"

definition has_field :: "string \<Rightarrow> json \<Rightarrow> bool" where
  "has_field k c = (case c of JObj kvs \<Rightarrow> map_of kvs k \<noteq> None | _ \<Rightarrow> False)"

definition field_of :: "string \<Rightarrow> json \<Rightarrow> json" where
  "field_of k c = (case c of JObj kvs \<Rightarrow> dict_get0 kvs k | _ \<Rightarrow> JNull)"

text \<open>\<^verbatim>\<open>pl.col(...).struct.field(k)\<close> on the cells of a column.\<close>

definition struct_field :: "string \<Rightarrow> json list \<Rightarrow> error + json list" where
  "struct_field k cs =
     (if list_all is_struct_cell cs \<and> list_ex (has_field k) cs
      then Inr (map (field_of k) cs) else Inl PolarsError)"

definition field_names :: "json \<Rightarrow> string list" where
  "field_names c = (case c of JObj kvs \<Rightarrow> map fst kvs | _ \<Rightarrow> [])"

text \<open>The elements of the exploded list, when \<^verbatim>\<open>unnest\<close> accepts them.\<close>

definition sca_elements :: "pydict \<Rightarrow> error + json list" where
  "sca_elements doc =
     (case map_of doc ''vulnerabilities'' of
        Some (JArr elems) \<Rightarrow>
          if list_all is_struct_cell elems \<and> list_ex (\<lambda>e. e \<noteq> JNull) elems
             \<and> list_all (\<lambda>f. f \<notin> set (filter (\<lambda>k. k \<noteq> ''vulnerabilities'') (map fst doc)))
                  (concat (map field_names elems))
          then Inr elems else Inl PolarsError
      | _ \<Rightarrow> Inl PolarsError)"

text \<open>A column of the unnested frame: a field of the elements, or a top-level value repeated.\<close>

definition sca_column :: "pydict \<Rightarrow> json list \<Rightarrow> string \<Rightarrow> error + json list" where
  "sca_column doc elems c =
     (if list_ex (has_field c) elems then Inr (map (field_of c) elems)
      else case map_of doc c of
             Some v \<Rightarrow> if c \<noteq> ''vulnerabilities'' then Inr (map (\<lambda>e. v) elems)
                       else Inl PolarsError
           | None \<Rightarrow> Inl PolarsError)"

text \<open>\<^verbatim>\<open>pl.coalesce([a, b, c])\<close> on one row.\<close>

definition coalesce3 :: "json \<Rightarrow> json \<Rightarrow> json \<Rightarrow> json" where
  "coalesce3 a b c = (if a \<noteq> JNull then a else if b \<noteq> JNull then b else c)"

text \<open>
  The two \<^verbatim>\<open>with_columns\<close>. The expressions of one call read the frame as it is before the
  call: \<^verbatim>\<open>pl.col("cve")\<close> inside the coalesce is the report's own \<open>cve\<close> field, not the alias
  the same call creates, and the adapter fails on a report without that field.
\<close>

definition sca_rows :: "pydict \<Rightarrow> json list \<Rightarrow> error + json list list" where
  "sca_rows doc elems =
     bind_err (sca_column doc elems ''location'') (\<lambda>location.
     bind_err (struct_field ''image'' location) (\<lambda>host.
     bind_err (struct_field ''dependency'' location) (\<lambda>dependency.
     bind_err (struct_field ''package'' dependency) (\<lambda>package.
     bind_err (struct_field ''name'' package) (\<lambda>pkg_name.
     bind_err (struct_field ''version'' dependency) (\<lambda>pkg_version.
     bind_err (sca_column doc elems ''id'') (\<lambda>id.
     bind_err (sca_column doc elems ''severity'') (\<lambda>severity.
     bind_err (mapM_err (str_cell py_upper) severity) (\<lambda>risk.
     bind_err (sca_column doc elems ''message'') (\<lambda>message.
     bind_err (sca_column doc elems ''cve'') (\<lambda>cve.
     bind_err (sca_column doc elems ''description'') (\<lambda>description.
     bind_err (sca_column doc elems ''solution'') (\<lambda>solution.
       Inr (map (\<lambda>i. [id ! i, risk ! i, host ! i, JInt 0,
                       coalesce3 (pkg_name ! i) (message ! i) (cve ! i),
                       description ! i, solution ! i, JStr [], JStr []])
              [0 ..< length elems]))))))))))))))"

definition sca_trivy_process :: "json upload \<Rightarrow> string \<Rightarrow> error + frame" where
  "sca_trivy_process file file_type =
     (if file_type \<noteq> ''json'' then Inl UnsupportedFormat
      else case file of
        Malformed \<Rightarrow> Inl ParseError
      | Wellformed (JObj doc) \<Rightarrow>
          bind_err (sca_elements doc) (\<lambda>elems.
          bind_err (sca_rows doc elems) (\<lambda>rs.
          bind_err (filter_valid_risk \<lparr> columns = canonical_columns, rows = rs \<rparr>) (\<lambda>lf.
          bind_err (with_str_col ''description'' (replace_str [nl] ''<br/>'') lf) (\<lambda>lf.
          with_str_col ''remediation'' (replace_str [nl] ''<br/>'') lf))))
      | Wellformed _ \<Rightarrow> Inl PolarsError)"


section \<open>Closed forms used in the statements\<close>

text \<open>
  What a string expression does to a cell it accepts, and the cells it accepts.
\<close>

definition str_or_null :: "json \<Rightarrow> bool" where
  "str_or_null c = (case c of JStr s \<Rightarrow> True | JNull \<Rightarrow> True | _ \<Rightarrow> False)"

definition upd_str :: "(string \<Rightarrow> string) \<Rightarrow> json \<Rightarrow> json" where
  "upd_str g c = (case c of JStr s \<Rightarrow> JStr (g s) | _ \<Rightarrow> c)"

text \<open>The row the Burp adapter returns for an issue that passes the filter.\<close>

definition burp_row :: "xml \<Rightarrow> json list" where
  "burp_row issue =
     [JStr [], JStr (py_upper (xml_findtext issue ''severity'' [])), JStr (issue_host issue),
      JInt 0, JStr (xml_findtext issue ''name'' []),
      JStr (nl2br (if xml_findtext issue ''issueBackground'' [] \<noteq> []
                   then xml_findtext issue ''issueBackground'' []
                   else xml_findtext issue ''issueDetail'' [])),
      JStr (nl2br (if xml_findtext issue ''remediationBackground'' [] \<noteq> []
                   then xml_findtext issue ''remediationBackground'' []
                   else xml_findtext issue ''remediationDetail'' [])),
      JStr (nl2br (issue_evidence issue)), JStr []]"

definition burp_keeps :: "xml \<Rightarrow> bool" where
  "burp_keeps issue = (py_upper (xml_findtext issue ''severity'' []) \<in> set valid_risks)"


text \<open>
  What a claim says about the risk column of a result: the column exists and every cell of
  it satisfies the predicate.
\<close>

definition risks_satisfy :: "(json \<Rightarrow> bool) \<Rightarrow> frame \<Rightarrow> bool" where
  "risks_satisfy P df = (case col_values df ''risk'' of Inr vs \<Rightarrow> list_all P vs | Inl e \<Rightarrow> False)"







section \<open>Verified properties\<close>

subsection \<open>Strings\<close>

lemma replace_str_Nil [simp]: "replace_str old new [] = []" by simp


lemma nl2br_replicate: "nl2br (replicate n (CHR ''a'')) = replicate n (CHR ''a'')"
  by (induction n) (simp_all add: nl2br_def nl_def)

subsection \<open>Errors and frames\<close>

lemma bind_err_Inr [simp]: "bind_err (Inr x) f = f x"
  by (simp add: bind_err_def)

lemma bind_err_Inl [simp]: "bind_err (Inl e) f = Inl e"
  by (simp add: bind_err_def)


lemma mapM_err_total: "mapM_err (\<lambda>x. Inr (g x)) xs = Inr (map g xs)"
  by (induction xs) simp_all

lemma mapM_err_cong_Inr:
  "list_all (\<lambda>x. f x = Inr (g x)) xs \<Longrightarrow> mapM_err f xs = Inr (map g xs)"
  by (induction xs) simp_all

lemma mapM_err_length: "mapM_err f xs = Inr ys \<Longrightarrow> length ys = length xs"
  by (induction xs arbitrary: ys) (auto split: sum.splits)

lemma str_cell_str_or_null: "str_or_null c \<Longrightarrow> str_cell g c = Inr (upd_str g c)"
  by (cases c) (simp_all add: str_or_null_def str_cell_def upd_str_def)



lemma with_str_col_rows:
  assumes "index_of (columns df) c = Some i"
    and "list_all (\<lambda>r. str_or_null (cell r i)) (rows df)"
  shows "with_str_col c g df = Inr (df\<lparr> rows := map (\<lambda>r. r[i := upd_str g (cell r i)]) (rows df) \<rparr>)"
proof -
  have "mapM_err (\<lambda>r. bind_err (str_cell g (cell r i)) (\<lambda>v. Inr (r[i := v]))) (rows df)
        = Inr (map (\<lambda>r. r[i := upd_str g (cell r i)]) (rows df))"
    using assms(2) by (intro mapM_err_cong_Inr) (simp add: list_all_iff str_cell_str_or_null)
  then show ?thesis using assms(1) by (simp add: with_str_col_def)
qed

lemma index_canonical:
  "index_of canonical_columns ''risk'' = Some 1"
  "index_of canonical_columns ''description'' = Some 5"
  "index_of canonical_columns ''remediation'' = Some 6"
  "index_of canonical_columns ''evidence'' = Some 7"
  by (simp_all add: canonical_columns_def)

subsection \<open>The bug-bounty exporter\<close>

lemma format_description_JStr:
  "format_description (JStr s) 5000 =
     (if 5000 < length (nl2br s) then take 5000 (nl2br s) @ ''...'' else nl2br s)"
  by (cases s) (simp_all add: format_description_def nl2br_def py_slice_to_def Let_def)


text \<open>
  C9. In a row the exporter writes, a description string and a non-empty remediation link
  string are written after newline replacement, cut to their first 5000 characters
  followed by \<^verbatim>\<open>...\<close> when the replaced text is longer than 5000 characters, and
  unchanged otherwise.
\<close>

theorem format_description_truncates:
  assumes "map_report_to_csv_row report detailed_report = Some row"
  shows "(report_description (report_source report detailed_report) = JStr d \<longrightarrow>
            Description row =
              (if 5000 < length (nl2br d) then take 5000 (nl2br d) @ ''...'' else nl2br d))
       \<and> (report_remediation_link (report_source report detailed_report) = JStr l \<and> l \<noteq> [] \<longrightarrow>
            Solution row =
              (if 5000 < length (nl2br l) then take 5000 (nl2br l) @ ''...'' else nl2br l))"
  using assms
  by (auto simp: map_report_to_csv_row_def Let_def format_description_JStr split: option.splits)

theorem format_description_truncates_witness:
  "map_report_to_csv_row
     [(''local_id'', JStr ''R-1''), (''criticity'', JStr ''High''),
      (''description'', JStr (replicate 5001 (CHR ''a''))),
      (''remediation_link'', JStr [CHR ''x'', CHR 0x0A, CHR ''y''])] None \<noteq> None
   \<and> Description (the (map_report_to_csv_row
     [(''local_id'', JStr ''R-1''), (''criticity'', JStr ''High''),
      (''description'', JStr (replicate 5001 (CHR ''a''))),
      (''remediation_link'', JStr [CHR ''x'', CHR 0x0A, CHR ''y''])] None))
       = replicate 5000 (CHR ''a'') @ ''...''
   \<and> Solution (the (map_report_to_csv_row
     [(''local_id'', JStr ''R-1''), (''criticity'', JStr ''High''),
      (''description'', JStr (replicate 5001 (CHR ''a''))),
      (''remediation_link'', JStr [CHR ''x'', CHR 0x0A, CHR ''y''])] None))
       = ''x<br/>y''"
proof -
  define R :: pydict where "R =
     [(''local_id'', JStr ''R-1''), (''criticity'', JStr ''High''),
      (''description'', JStr (replicate 5001 (CHR ''a''))),
      (''remediation_link'', JStr [CHR ''x'', CHR 0x0A, CHR ''y''])]"
  have crit: "convert_criticality (JStr ''High'') = Some ''HIGH''"
    by code_simp
  have src: "report_source R None = R"
    by (simp add: report_source_def)
  have c: "report_criticity R = JStr ''High''"
    by (simp add: report_criticity_def dict_get_def R_def)
  obtain row where row: "map_report_to_csv_row R None = Some row"
    by (simp add: map_report_to_csv_row_def Let_def src c crit)
  have d: "report_description (report_source R None) = JStr (replicate 5001 (CHR ''a''))"
    unfolding src by (simp add: report_description_def dict_get_def R_def Let_def)
  have l: "report_remediation_link (report_source R None) = JStr [CHR ''x'', CHR 0x0A, CHR ''y''] \<and> [CHR ''x'', CHR 0x0A, CHR ''y''] \<noteq> []"
    unfolding src by (simp add: report_remediation_link_def dict_get_def R_def Let_def)
  have n: "nl2br [CHR ''x'', CHR 0x0A, CHR ''y''] = ''x<br/>y''"
    by (simp add: nl2br_def nl_def)
  from format_description_truncates [OF row, of "replicate 5001 (CHR ''a'')" "[CHR ''x'', CHR 0x0A, CHR ''y'']"] d l
  have "Description row = replicate 5000 (CHR ''a'') @ ''...''" and "Solution row = ''x<br/>y''"
    by (simp_all add: nl2br_replicate n)
  with row have "map_report_to_csv_row R None \<noteq> None
     \<and> Description (the (map_report_to_csv_row R None)) = replicate 5000 (CHR ''a'') @ ''...''
     \<and> Solution (the (map_report_to_csv_row R None)) = ''x<br/>y''"
    by simp
  then show ?thesis unfolding R_def .
qed

text \<open>
  C10. When the report has no \<^verbatim>\<open>remediation_link\<close> key, and its \<^verbatim>\<open>bug_type\<close> is missing, is
  not an object or is an object without that key, the Solution column of the exported row
  is the formatted description: the same value as the Description column.
\<close>

theorem solution_falls_back_to_description:
  assumes "map_report_to_csv_row report detailed_report = Some row"
    and "map_of (report_source report detailed_report) ''remediation_link'' = None"
    and "case map_of (report_source report detailed_report) ''bug_type'' of
           Some (JObj bug_type) \<Rightarrow> map_of bug_type ''remediation_link'' = None
         | _ \<Rightarrow> True"
  shows "Solution row = Description row
       \<and> Solution row = format_description (report_description (report_source report detailed_report)) 5000"
proof -
  have "\<not> truthy (report_remediation_link (report_source report detailed_report))"
    using assms(2,3)
    by (auto simp: report_remediation_link_def dict_get_def Let_def split: option.splits json.splits)
  with assms(1) show ?thesis
    by (auto simp: map_report_to_csv_row_def Let_def split: option.splits)
qed

theorem solution_falls_back_to_description_witness:
  "map_report_to_csv_row
     [(''local_id'', JStr ''R-2''), (''criticity'', JStr ''m''),
      (''description_html'', JStr [CHR ''a'', CHR 0x0A, CHR ''b'']),
      (''bug_type'', JObj [(''name'', JStr ''XSS'')])] None \<noteq> None
   \<and> Solution (the (map_report_to_csv_row
     [(''local_id'', JStr ''R-2''), (''criticity'', JStr ''m''),
      (''description_html'', JStr [CHR ''a'', CHR 0x0A, CHR ''b'']),
      (''bug_type'', JObj [(''name'', JStr ''XSS'')])] None)) = ''a<br/>b''
   \<and> Description (the (map_report_to_csv_row
     [(''local_id'', JStr ''R-2''), (''criticity'', JStr ''m''),
      (''description_html'', JStr [CHR ''a'', CHR 0x0A, CHR ''b'']),
      (''bug_type'', JObj [(''name'', JStr ''XSS'')])] None)) = ''a<br/>b''"
proof -
  define R :: pydict where "R =
     [(''local_id'', JStr ''R-2''), (''criticity'', JStr ''m''),
      (''description_html'', JStr [CHR ''a'', CHR 0x0A, CHR ''b'']),
      (''bug_type'', JObj [(''name'', JStr ''XSS'')])]"
  have crit: "convert_criticality (JStr ''m'') = Some ''MEDIUM''"
    by code_simp
  have c: "report_criticity R = JStr ''m''"
    by (simp add: report_criticity_def dict_get_def R_def)
  obtain row where row: "map_report_to_csv_row R None = Some row"
    by (simp add: map_report_to_csv_row_def Let_def report_source_def c crit)
  have src: "report_source R None = R"
    by (simp add: report_source_def)
  have a: "map_of (report_source R None) ''remediation_link'' = None"
    unfolding src by (simp add: R_def)
  have b: "case map_of (report_source R None) ''bug_type'' of
           Some (JObj bug_type) \<Rightarrow> map_of bug_type ''remediation_link'' = None
         | _ \<Rightarrow> True"
    unfolding src by (simp add: R_def)
  have d: "format_description (report_description (report_source R None)) 5000 = ''a<br/>b''"
    unfolding src R_def by code_simp
  from solution_falls_back_to_description [OF row a b] d row
  have "map_report_to_csv_row R None \<noteq> None
     \<and> Solution (the (map_report_to_csv_row R None)) = ''a<br/>b''
     \<and> Description (the (map_report_to_csv_row R None)) = ''a<br/>b''"
    by auto
  then show ?thesis unfolding R_def .
qed

subsection \<open>The Burp Suite adapter\<close>

text \<open>
  With an accepted file type the adapter cannot fail on a parsed document: every cell it
  builds is a string, and its result is the rows of the issues whose upper-cased severity
  is one of the four risks.
\<close>

lemma burpsuite_process_rows:
  assumes "py_lower file_type \<in> set (map py_lower burp_supported_types)"
  shows "burpsuite_process (Wellformed root) file_type =
           Inr \<lparr> columns = canonical_columns,
                 rows = map burp_row (filter burp_keeps (xml_findall root ''issue'')) \<rparr>"
proof (cases "xml_findall root ''issue'' = []")
  case True
  then show ?thesis using assms by (simp add: burpsuite_process_def empty_frame_def)
next
  case False
  define xs where "xs = xml_findall root ''issue''"
  obtain y ys where xs: "xs = y # ys" using False by (cases xs) (auto simp: xs_def)
  have cols: "columns (frame_of_records (map issue_record xs)) = canonical_columns"
    by (simp add: xs frame_of_records_def issue_record_def Let_def canonical_columns_def)
  have rws: "rows (frame_of_records (map issue_record xs)) = map (\<lambda>i. map snd (issue_record i)) xs"
    by (simp add: xs frame_of_records_def)
  define f0 where "f0 = frame_of_records (map issue_record xs)"
  have f0: "f0 = \<lparr> columns = canonical_columns, rows = map (\<lambda>i. map snd (issue_record i)) xs \<rparr>"
    using cols rws by (simp add: f0_def)
  have s1: "with_str_col ''description'' (replace_str [nl] ''<br/>'') f0 = Inr (f0\<lparr> rows := map (\<lambda>r. r[5 := upd_str (replace_str [nl] ''<br/>'') (cell r 5)]) (rows f0) \<rparr>)"
    by (rule with_str_col_rows)
       (simp_all add: f0 index_canonical list_all_iff issue_record_def Let_def cell_def str_or_null_def)
  define f1 where "f1 = \<lparr> columns = canonical_columns,
      rows = map (\<lambda>i. [JStr [], JStr (xml_findtext i ''severity'' []), JStr (issue_host i),
        JInt 0, JStr (xml_findtext i ''name'' []),
        JStr (nl2br (if xml_findtext i ''issueBackground'' [] \<noteq> []
                     then xml_findtext i ''issueBackground'' []
                     else xml_findtext i ''issueDetail'' [])),
        JStr (if xml_findtext i ''remediationBackground'' [] \<noteq> []
                     then xml_findtext i ''remediationBackground'' []
                     else xml_findtext i ''remediationDetail'' []),
        JStr (issue_evidence i), JStr []]) xs \<rparr>"
  have e1: "with_str_col ''description'' (replace_str [nl] ''<br/>'') f0 = Inr f1"
    unfolding s1 by (simp add: f0 f1_def issue_record_def Let_def cell_def upd_str_def nl2br_def)
  define f2 where "f2 = \<lparr> columns = canonical_columns,
      rows = map (\<lambda>i. [JStr [], JStr (xml_findtext i ''severity'' []), JStr (issue_host i),
        JInt 0, JStr (xml_findtext i ''name'' []),
        JStr (nl2br (if xml_findtext i ''issueBackground'' [] \<noteq> []
                     then xml_findtext i ''issueBackground'' []
                     else xml_findtext i ''issueDetail'' [])),
        JStr (nl2br (if xml_findtext i ''remediationBackground'' [] \<noteq> []
                     then xml_findtext i ''remediationBackground'' []
                     else xml_findtext i ''remediationDetail'' [])),
        JStr (issue_evidence i), JStr []]) xs \<rparr>"
  have e2: "with_str_col ''remediation'' (replace_str [nl] ''<br/>'') f1 = Inr f2"
    by (subst with_str_col_rows [where i = 6])
       (simp_all add: f1_def f2_def index_canonical list_all_iff cell_def str_or_null_def upd_str_def nl2br_def)
  define f3 where "f3 = \<lparr> columns = canonical_columns,
      rows = map (\<lambda>i. [JStr [], JStr (xml_findtext i ''severity'' []), JStr (issue_host i),
        JInt 0, JStr (xml_findtext i ''name'' []),
        JStr (nl2br (if xml_findtext i ''issueBackground'' [] \<noteq> []
                     then xml_findtext i ''issueBackground'' []
                     else xml_findtext i ''issueDetail'' [])),
        JStr (nl2br (if xml_findtext i ''remediationBackground'' [] \<noteq> []
                     then xml_findtext i ''remediationBackground'' []
                     else xml_findtext i ''remediationDetail'' [])),
        JStr (nl2br (issue_evidence i)), JStr []]) xs \<rparr>"
  have e3: "with_str_col ''evidence'' (replace_str [nl] ''<br/>'') f2 = Inr f3"
    by (subst with_str_col_rows [where i = 7])
       (simp_all add: f2_def f3_def index_canonical list_all_iff cell_def str_or_null_def upd_str_def nl2br_def)
  define f4 where "f4 = \<lparr> columns = canonical_columns, rows = map burp_row xs \<rparr>"
  have e4: "with_str_col ''risk'' py_upper f3 = Inr f4"
    by (subst with_str_col_rows [where i = 1])
       (simp_all add: f3_def f4_def index_canonical list_all_iff cell_def str_or_null_def upd_str_def burp_row_def)
  have e5: "filter_valid_risk f4 = Inr \<lparr> columns = canonical_columns, rows = map burp_row (filter burp_keeps xs) \<rparr>"
    by (simp add: filter_valid_risk_def f4_def index_canonical filter_map o_def cell_def burp_row_def
        risk_is_valid_def burp_keeps_def [abs_def])
  have ne: "map issue_record xs \<noteq> []" using xs by simp
  show ?thesis
    using assms ne e1 e2 e3 e4 e5
    by (simp add: burpsuite_process_def Let_def xs_def [symmetric] f0_def [symmetric])
qed

lemma xml_findall_children [simp]:
  "xml_findall (Element t a x cs) n = filter (\<lambda>c. tag c = n) cs"
  by (simp add: xml_findall_def)

lemma py_upper_Information: "py_upper ''Information'' = ''INFORMATION''"
  by code_simp

lemma py_upper_High: "py_upper ''High'' = ''HIGH''"
  by code_simp

lemma burp_keeps_Information:
  "xml_findtext issue ''severity'' [] = ''Information'' \<Longrightarrow> \<not> burp_keeps issue"
  by (simp add: burp_keeps_def valid_risks_def py_upper_Information)

lemma burp_keeps_High:
  "xml_findtext issue ''severity'' [] = ''High'' \<Longrightarrow> burp_keeps issue"
  by (simp add: burp_keeps_def valid_risks_def py_upper_High)

lemma burpsuite_process_unsupported:
  "py_lower file_type \<notin> set (map py_lower burp_supported_types) \<Longrightarrow>
     burpsuite_process file file_type = Inl UnsupportedFormat"
  by (simp add: burpsuite_process_def)

text \<open>
  C6. An \<^verbatim>\<open>issue\<close> whose severity is \<^verbatim>\<open>Information\<close> contributes nothing: the adapter's
  result is the same with and without it, wherever it stands among the children of the
  root. An \<^verbatim>\<open>issue\<close> with severity \<^verbatim>\<open>High\<close> whose \<^verbatim>\<open>host\<close> element has no text and the
  attribute \<^verbatim>\<open>ip="10.0.0.1"\<close> gives a row of the result whose host cell (column 2) is
  \<^verbatim>\<open>10.0.0.1\<close>.
\<close>

theorem burp_information_dropped_host_from_ip:
  "(xml_findtext issue ''severity'' [] = ''Information'' \<longrightarrow>
      burpsuite_process (Wellformed (Element t a x (pre @ issue # post))) file_type
        = burpsuite_process (Wellformed (Element t a x (pre @ post))) file_type)
   \<and> (py_lower file_type \<in> set (map py_lower burp_supported_types)
        \<and> tag issue = ''issue''
        \<and> xml_findtext issue ''severity'' [] = ''High''
        \<and> xml_find issue ''host'' = Some h \<and> elem_text h = None
        \<and> map_of (attrib h) ''ip'' = Some ''10.0.0.1'' \<longrightarrow>
      (\<exists>df. burpsuite_process (Wellformed (Element t a x (pre @ issue # post))) file_type = Inr df
          \<and> index_of (columns df) ''host'' = Some 2
          \<and> burp_row issue \<in> set (rows df)
          \<and> cell (burp_row issue) 2 = JStr ''10.0.0.1''))"
proof (intro conjI impI)
  assume info: "xml_findtext issue ''severity'' [] = ''Information''"
  show "burpsuite_process (Wellformed (Element t a x (pre @ issue # post))) file_type
        = burpsuite_process (Wellformed (Element t a x (pre @ post))) file_type"
  proof (cases "py_lower file_type \<in> set (map py_lower burp_supported_types)")
    case True
    then show ?thesis
      using burp_keeps_Information [OF info] by (simp add: burpsuite_process_rows)
  next
    case False
    then show ?thesis by (simp add: burpsuite_process_unsupported)
  qed
next
  assume h: "py_lower file_type \<in> set (map py_lower burp_supported_types)
        \<and> tag issue = ''issue''
        \<and> xml_findtext issue ''severity'' [] = ''High''
        \<and> xml_find issue ''host'' = Some h \<and> elem_text h = None
        \<and> map_of (attrib h) ''ip'' = Some ''10.0.0.1''"
  then have host: "issue_host issue = ''10.0.0.1''"
    by (simp add: issue_host_def text_or_empty_def)
  have keep: "burp_keeps issue" using h by (simp add: burp_keeps_High)
  show "\<exists>df. burpsuite_process (Wellformed (Element t a x (pre @ issue # post))) file_type = Inr df
          \<and> index_of (columns df) ''host'' = Some 2
          \<and> burp_row issue \<in> set (rows df)
          \<and> cell (burp_row issue) 2 = JStr ''10.0.0.1''"
    using h keep host
    by (simp add: burpsuite_process_rows canonical_columns_def cell_def burp_row_def py_upper_High)
qed

theorem burp_information_dropped_host_from_ip_witness:
  "burpsuite_process (Wellformed (Element ''issues'' [] None
      [Element ''issue'' [] None
         [Element ''severity'' [] (Some ''Information'') [], Element ''name'' [] (Some ''Note'') []],
       Element ''issue'' [] None
         [Element ''severity'' [] (Some ''High'') [],
          Element ''host'' [(''ip'', ''10.0.0.1'')] None [],
          Element ''name'' [] (Some ''SQL injection'') []]])) ''xml''
   = burpsuite_process (Wellformed (Element ''issues'' [] None
      [Element ''issue'' [] None
         [Element ''severity'' [] (Some ''High'') [],
          Element ''host'' [(''ip'', ''10.0.0.1'')] None [],
          Element ''name'' [] (Some ''SQL injection'') []]])) ''xml''
   \<and> burpsuite_process (Wellformed (Element ''issues'' [] None
      [Element ''issue'' [] None
         [Element ''severity'' [] (Some ''Information'') [], Element ''name'' [] (Some ''Note'') []],
       Element ''issue'' [] None
         [Element ''severity'' [] (Some ''High'') [],
          Element ''host'' [(''ip'', ''10.0.0.1'')] None [],
          Element ''name'' [] (Some ''SQL injection'') []]])) ''xml''
     = Inr \<lparr> columns = canonical_columns,
             rows = [[JStr [], JStr ''HIGH'', JStr ''10.0.0.1'', JInt 0, JStr ''SQL injection'',
                      JStr [], JStr [], JStr [], JStr []]] \<rparr>"
proof -
  define info where "info = Element ''issue'' [] None
         [Element ''severity'' [] (Some ''Information'') [], Element ''name'' [] (Some ''Note'') []]"
  define host where "host = Element ''host'' [(''ip'', ''10.0.0.1'')] None []"
  define high where "high = Element ''issue'' [] None
         [Element ''severity'' [] (Some ''High'') [], host,
          Element ''name'' [] (Some ''SQL injection'') []]"
  have i: "xml_findtext info ''severity'' [] = ''Information''"
    by (simp add: info_def xml_findtext_def xml_find_def)
  have a: "burpsuite_process (Wellformed (Element ''issues'' [] None [info, high])) ''xml''
         = burpsuite_process (Wellformed (Element ''issues'' [] None [high])) ''xml''"
    using burp_information_dropped_host_from_ip
      [of info "''issues''" "[]" None "[]" "[high]" "''xml''"] i
    by simp
  have ft: "py_lower ''xml'' \<in> set (map py_lower burp_supported_types)"
    by code_simp
  have h: "tag high = ''issue'' \<and> xml_findtext high ''severity'' [] = ''High''
        \<and> xml_find high ''host'' = Some host \<and> elem_text host = None
        \<and> map_of (attrib host) ''ip'' = Some ''10.0.0.1''"
    by (simp add: high_def host_def xml_findtext_def xml_find_def)
  obtain df where df:
      "burpsuite_process (Wellformed (Element ''issues'' [] None [info, high])) ''xml'' = Inr df"
      "index_of (columns df) ''host'' = Some 2"
      "burp_row high \<in> set (rows df)"
      "cell (burp_row high) 2 = JStr ''10.0.0.1''"
    using burp_information_dropped_host_from_ip
      [of high "''issues''" "[]" None "[info]" "[]" "''xml''" host] ft h
    by auto
  have b: "burpsuite_process (Wellformed (Element ''issues'' [] None [high])) ''xml''
     = Inr \<lparr> columns = canonical_columns,
             rows = [[JStr [], JStr ''HIGH'', JStr ''10.0.0.1'', JInt 0, JStr ''SQL injection'',
                      JStr [], JStr [], JStr [], JStr []]] \<rparr>"
    unfolding high_def host_def by code_simp
  from a b df show ?thesis unfolding info_def high_def host_def by simp
qed

subsection \<open>The Trivy JSON adapter\<close>

lemma dict_get_Some: "map_of d k = Some v \<Longrightarrow> dict_get d k x = v"
  by (simp add: dict_get_def)

lemma dict_get_None: "map_of d k = None \<Longrightarrow> dict_get d k x = x"
  by (simp add: dict_get_def)




subsection \<open>The compliance CSV adapter\<close>

text \<open>
  C5. A row whose \<^verbatim>\<open>Description\<close> is \<^verbatim>\<open>SSH Weak Ciphers: [tag]\<close>, a blank line,
  \<^verbatim>\<open>description text\<close>, \<^verbatim>\<open>Actual Value:\<close> and \<^verbatim>\<open>ssh -v output\<close> (lines separated by the
  newline \<open>CHR 0x0A\<close>) and whose \<^verbatim>\<open>Risk\<close> is \<^verbatim>\<open>High\<close> gives one row with name
  \<^verbatim>\<open>SSH Weak Ciphers\<close>, description \<^verbatim>\<open>description text<br/>\<close> (the Actual Value block is
  gone), evidence \<^verbatim>\<open>ssh -v output\<close> and status \<^verbatim>\<open>High\<close>, whatever the other cells of the row
  are. The column the adapter calls \<open>risk\<close> is null: the input's Risk is carried by
  \<open>status\<close>.
\<close>

theorem compliance_ssh_weak_ciphers_scenario:
  "compliance_process
     (Wellformed \<lparr> columns = [''CVE'', ''Risk'', ''Host'', ''Port'', ''Name'', ''Description'',
                                ''Solution'', ''Plugin Output'', ''VPR Score''],
                    rows = [[cve, JStr ''High'', host, port, name,
                             JStr (''SSH Weak Ciphers: [tag]'' @ [CHR 0x0A, CHR 0x0A]
                                   @ ''description text'' @ [CHR 0x0A] @ ''Actual Value:''
                                   @ [CHR 0x0A] @ ''ssh -v output''),
                             solution, plugin_output, vpr_score]] \<rparr>)
     ''text/csv''
   = Inr \<lparr> columns = [''status'', ''Host'', ''Port'', ''remediation'', ''name'',
                       ''description'', ''evidence'', ''risk''],
           rows = [[JStr ''High'', host, port, solution, JStr ''SSH Weak Ciphers'',
                    JStr ''description text<br/>'', JStr ''ssh -v output'', JNull]] \<rparr>"
proof -
  define d where "d = ''SSH Weak Ciphers: [tag]'' @ [CHR 0x0A, CHR 0x0A]
                                   @ ''description text'' @ [CHR 0x0A] @ ''Actual Value:''
                                   @ [CHR 0x0A] @ ''ssh -v output''"
  have n: "name_extract d = Some ''SSH Weak Ciphers''"
    unfolding d_def by code_simp
  have de: "compliance_description d = Some ''description text<br/>''"
    unfolding d_def by code_simp
  have ev: "compliance_evidence d = Some ''ssh -v output''"
    unfolding d_def by code_simp
  show ?thesis
    unfolding d_def [symmetric]
    by (simp add: compliance_process_def col_values_def cell_def extract_cell_def n de ev
        set_col_def filter_not_none_def not_none_cell_def rename_cols_def drop_cols_def
        bind_err_def)
qed

text \<open>
  C4 at the compliance adapter: the \<^verbatim>\<open>Solution\<close> column is renamed to \<open>remediation\<close> and
  nothing else is done to it, so a newline in it reaches the output, while the newlines
  of description and evidence are replaced.
\<close>

theorem compliance_remediation_keeps_newlines:
  "compliance_process
     (Wellformed \<lparr> columns = [''CVE'', ''Risk'', ''Host'', ''Port'', ''Name'', ''Description'',
                                ''Solution'', ''Plugin Output'', ''VPR Score''],
                    rows = [[JNull, JStr ''High'', JStr ''10.0.0.5'', JInt 22, JStr ''SSH'',
                             JStr (''SSH Weak Ciphers: [tag]'' @ [CHR 0x0A, CHR 0x0A]
                                   @ ''description text'' @ [CHR 0x0A] @ ''Actual Value:''
                                   @ [CHR 0x0A] @ ''ssh -v output''),
                             JStr (''Disable weak ciphers.'' @ [CHR 0x0A] @ ''Restart sshd.''),
                             JNull, JNull]] \<rparr>)
     ''text/csv''
   = Inr \<lparr> columns = [''status'', ''Host'', ''Port'', ''remediation'', ''name'',
                       ''description'', ''evidence'', ''risk''],
           rows = [[JStr ''High'', JStr ''10.0.0.5'', JInt 22,
                    JStr (''Disable weak ciphers.'' @ [CHR 0x0A] @ ''Restart sshd.''),
                    JStr ''SSH Weak Ciphers'', JStr ''description text<br/>'',
                    JStr ''ssh -v output'', JNull]] \<rparr>"
  by code_simp

subsection \<open>File types\<close>

text \<open>
  C2, as the claim states it, fails: the nested-struct Trivy adapter, which reads JSON,
  rejects \<^verbatim>\<open>application/json\<close>, and the Semgrep adapter compares case-sensitively, so it
  rejects \<^verbatim>\<open>JSON\<close> for a document it accepts as \<^verbatim>\<open>json\<close>.
\<close>

theorem json_file_type_counterexample:
  "sca_trivy_process (Wellformed (JObj [])) ''application/json'' = Inl UnsupportedFormat
   \<and> semgrep_process (Wellformed (JObj [])) ''JSON'' = Inl UnsupportedFormat
   \<and> semgrep_process (Wellformed (JObj [])) ''json'' = Inr empty_frame"
  by (simp add: sca_trivy_process_def semgrep_process_def semgrep_records_def dict_get_def
      py_iter_def)

lemma accepted_json_documents:
  "semgrep_process (Wellformed (JObj [])) ''json'' = Inr empty_frame"
  "semgrep_process (Wellformed (JObj [])) ''application/json'' = Inr empty_frame"
  "trivy_process (Wellformed (JObj [(''Results'', JArr [])])) ''json'' = Inr empty_frame"
  "trivy_process (Wellformed (JObj [(''Results'', JArr [])])) ''application/json'' = Inr empty_frame"
  by (simp_all add: semgrep_process_def semgrep_records_def trivy_process_def trivy_records_def
      dict_get_def py_iter_def)

lemma accepted_sca_document:
  "sca_trivy_process (Wellformed (JObj [(''vulnerabilities'', JArr [JObj
       [(''id'', JStr ''CVE-1''), (''severity'', JStr ''Unknown''), (''message'', JStr ''m''),
        (''cve'', JStr ''c''), (''description'', JStr ''d''), (''solution'', JStr ''s''),
        (''location'', JObj [(''image'', JStr ''img''),
           (''dependency'', JObj [(''package'', JObj [(''name'', JStr ''p'')]),
                                  (''version'', JStr ''1'')])])]])])) ''json''
   = Inr empty_frame"
  by code_simp

lemma accepted_csv_documents:
  "threatcode_process (Wellformed \<lparr> columns = [''CVE'', ''Risk'', ''Host'', ''Name'',
       ''Description'', ''Solution'', ''Plugin Output'', ''VPR Score''], rows = [] \<rparr>) ''csv''
     = Inr empty_frame"
  "threatcode_process (Wellformed \<lparr> columns = [''CVE'', ''Risk'', ''Host'', ''Name'',
       ''Description'', ''Solution'', ''Plugin Output'', ''VPR Score''], rows = [] \<rparr>) ''text/csv''
     = Inr empty_frame"
  "nessus_process (Wellformed \<lparr> columns = [''Risk'', ''Solution'', ''Description'',
       ''Plugin Output''], rows = [] \<rparr>) ''text/csv''
     = Inr \<lparr> columns = [''risk'', ''remediation'', ''description'', ''evidence''], rows = [] \<rparr>"
  "compliance_process (Wellformed \<lparr> columns = [''CVE'', ''Risk'', ''Name'', ''Description'',
       ''Solution'', ''Plugin Output'', ''VPR Score''], rows = [] \<rparr>) ''text/csv''
     = Inr \<lparr> columns = [''status'', ''remediation'', ''name'', ''description'', ''evidence'',
                         ''risk''], rows = [] \<rparr>"
  by code_simp+

lemma accepted_xml_document:
  "burpsuite_process (Wellformed (Element ''issues'' [] None [])) ''xml'' = Inr empty_frame"
  "burpsuite_process (Wellformed (Element ''issues'' [] None [])) ''Text/XML'' = Inr empty_frame"
  by code_simp+

text \<open>
  C2, amended. Every adapter answers a file type outside its accepted set with
  \<open>UnsupportedFormat\<close> whatever the file is, parsable or not. The accepted sets are:
  \<^verbatim>\<open>text/csv\<close> for the two Nessus adapters; \<^verbatim>\<open>text/csv\<close> and \<^verbatim>\<open>csv\<close> for ThreatCode;
  \<^verbatim>\<open>application/json\<close> and \<^verbatim>\<open>json\<close> for Semgrep and the Trivy JSON adapter; \<^verbatim>\<open>json\<close> alone
  for the nested-struct Trivy adapter, all compared exactly; and for Burp Suite the four
  XML types compared after lower-casing. Each accepted type is accepted: a document is
  processed under it.
\<close>

theorem unsupported_file_type_rejected:
  "(file_type \<noteq> ''text/csv'' \<longrightarrow>
       nessus_process csv file_type = Inl UnsupportedFormat
     \<and> compliance_process csv file_type = Inl UnsupportedFormat)
   \<and> (file_type \<notin> set [''text/csv'', ''csv''] \<longrightarrow>
       threatcode_process csv file_type = Inl UnsupportedFormat)
   \<and> (file_type \<notin> set [''application/json'', ''json''] \<longrightarrow>
       semgrep_process doc file_type = Inl UnsupportedFormat
     \<and> trivy_process doc file_type = Inl UnsupportedFormat)
   \<and> (file_type \<noteq> ''json'' \<longrightarrow> sca_trivy_process doc file_type = Inl UnsupportedFormat)
   \<and> (py_lower file_type \<notin> set (map py_lower burp_supported_types) \<longrightarrow>
       burpsuite_process tree file_type = Inl UnsupportedFormat)
   \<and> semgrep_process (Wellformed (JObj [])) ''json'' = Inr empty_frame
   \<and> semgrep_process (Wellformed (JObj [])) ''application/json'' = Inr empty_frame
   \<and> trivy_process (Wellformed (JObj [(''Results'', JArr [])])) ''json'' = Inr empty_frame
   \<and> trivy_process (Wellformed (JObj [(''Results'', JArr [])])) ''application/json''
       = Inr empty_frame
   \<and> sca_trivy_process (Wellformed (JObj [(''vulnerabilities'', JArr [JObj
       [(''id'', JStr ''CVE-1''), (''severity'', JStr ''Unknown''), (''message'', JStr ''m''),
        (''cve'', JStr ''c''), (''description'', JStr ''d''), (''solution'', JStr ''s''),
        (''location'', JObj [(''image'', JStr ''img''),
           (''dependency'', JObj [(''package'', JObj [(''name'', JStr ''p'')]),
                                  (''version'', JStr ''1'')])])]])])) ''json''
       = Inr empty_frame
   \<and> threatcode_process (Wellformed \<lparr> columns = [''CVE'', ''Risk'', ''Host'', ''Name'',
       ''Description'', ''Solution'', ''Plugin Output'', ''VPR Score''], rows = [] \<rparr>) ''csv''
       = Inr empty_frame
   \<and> threatcode_process (Wellformed \<lparr> columns = [''CVE'', ''Risk'', ''Host'', ''Name'',
       ''Description'', ''Solution'', ''Plugin Output'', ''VPR Score''], rows = [] \<rparr>) ''text/csv''
       = Inr empty_frame
   \<and> nessus_process (Wellformed \<lparr> columns = [''Risk'', ''Solution'', ''Description'',
       ''Plugin Output''], rows = [] \<rparr>) ''text/csv''
       = Inr \<lparr> columns = [''risk'', ''remediation'', ''description'', ''evidence''], rows = [] \<rparr>
   \<and> compliance_process (Wellformed \<lparr> columns = [''CVE'', ''Risk'', ''Name'', ''Description'',
       ''Solution'', ''Plugin Output'', ''VPR Score''], rows = [] \<rparr>) ''text/csv''
       = Inr \<lparr> columns = [''status'', ''remediation'', ''name'', ''description'', ''evidence'',
                           ''risk''], rows = [] \<rparr>
   \<and> burpsuite_process (Wellformed (Element ''issues'' [] None [])) ''xml'' = Inr empty_frame
   \<and> burpsuite_process (Wellformed (Element ''issues'' [] None [])) ''Text/XML''
       = Inr empty_frame"
proof -
  have rej:
    "(file_type \<noteq> ''text/csv'' \<longrightarrow>
       nessus_process csv file_type = Inl UnsupportedFormat
     \<and> compliance_process csv file_type = Inl UnsupportedFormat)
   \<and> (file_type \<notin> set [''text/csv'', ''csv''] \<longrightarrow>
       threatcode_process csv file_type = Inl UnsupportedFormat)
   \<and> (file_type \<notin> set [''application/json'', ''json''] \<longrightarrow>
       semgrep_process doc file_type = Inl UnsupportedFormat
     \<and> trivy_process doc file_type = Inl UnsupportedFormat)
   \<and> (file_type \<noteq> ''json'' \<longrightarrow> sca_trivy_process doc file_type = Inl UnsupportedFormat)
   \<and> (py_lower file_type \<notin> set (map py_lower burp_supported_types) \<longrightarrow>
       burpsuite_process tree file_type = Inl UnsupportedFormat)"
    by (simp add: nessus_process_def compliance_process_def threatcode_process_def
        semgrep_process_def trivy_process_def sca_trivy_process_def burpsuite_process_def)
  show ?thesis
    using rej accepted_json_documents accepted_sca_document accepted_csv_documents
      accepted_xml_document
    by blast
qed

theorem unsupported_file_type_rejected_witness:
  "nessus_process Malformed ''JSON'' = Inl UnsupportedFormat
   \<and> compliance_process Malformed ''JSON'' = Inl UnsupportedFormat
   \<and> threatcode_process Malformed ''JSON'' = Inl UnsupportedFormat
   \<and> semgrep_process Malformed ''JSON'' = Inl UnsupportedFormat
   \<and> trivy_process Malformed ''JSON'' = Inl UnsupportedFormat
   \<and> sca_trivy_process Malformed ''JSON'' = Inl UnsupportedFormat
   \<and> burpsuite_process Malformed ''JSON'' = Inl UnsupportedFormat"
proof -
  have a: "''JSON'' \<noteq> ''text/csv''" "''JSON'' \<notin> set [''text/csv'', ''csv'']"
    "''JSON'' \<notin> set [''application/json'', ''json'']" "''JSON'' \<noteq> ''json''"
    by simp_all
  have b: "py_lower ''JSON'' \<notin> set (map py_lower burp_supported_types)"
    by code_simp
  from unsupported_file_type_rejected [of "''JSON''" Malformed Malformed Malformed] a b
  show ?thesis by blast
qed

subsection \<open>The shape of every adapter's result\<close>







lemma risks_satisfy_empty [simp]: "risks_satisfy P empty_frame"
  by (simp add: risks_satisfy_def col_values_def empty_frame_def canonical_columns_def)





























lemma set_col_rows_length:
  "length vs = length (rows df) \<Longrightarrow> length (rows (set_col c vs df)) = length (rows df)"
  by (simp add: set_col_def split: option.splits)












end
